theory Spec2Isabelle
  imports Complex_Main
begin

section \<open>The pan/zoom viewport (src/components/draggable-canvas.tsx)\<close>

text \<open>
  JavaScript numbers are modelled as real numbers: the arithmetic of the component is
  addition, subtraction, one multiplication and min/max, on pixel coordinates and wheel
  deltas that the DOM delivers as finite numbers (the IDL type \<^verbatim>\<open>double\<close> excludes NaN
  and the infinities). Rounding of the binary representation is not modelled, so the
  theorems below state a computed value by the expression the code evaluates, with its
  operations in the order of the source.

  The four \<^verbatim>\<open>useState\<close> cells of the component form the state record; an event handler
  maps the state of the render it closes over to the state after its setters have run.
\<close>

record point =
  px :: real
  py :: real

record canvas =
  pan :: point
  scale :: real
  isDragging :: bool
  dragStart :: point

text \<open>The initial values of the \<^verbatim>\<open>useState\<close> calls (lines 12 to 15).\<close>

definition DraggableCanvas :: canvas where
  "DraggableCanvas =
     \<lparr>pan = \<lparr>px = 0, py = 0\<rparr>, scale = 0.3, isDragging = False,
      dragStart = \<lparr>px = 0, py = 0\<rparr>\<rparr>"

record mouse_event =
  button :: int
  clientX :: real
  clientY :: real

record touch =
  touchX :: real
  touchY :: real

record touch_event =
  touches :: "touch list"

record wheel_event =
  deltaY :: real

definition handleMouseDown :: "mouse_event \<Rightarrow> canvas \<Rightarrow> canvas" where
  "handleMouseDown e s =
     (if button e \<noteq> 0 then s
      else s\<lparr>isDragging := True,
             dragStart := \<lparr>px = clientX e - px (pan s), py = clientY e - py (pan s)\<rparr>\<rparr>)"

definition handleMouseMove :: "mouse_event \<Rightarrow> canvas \<Rightarrow> canvas" where
  "handleMouseMove e s =
     (if \<not> isDragging s then s
      else s\<lparr>pan := \<lparr>px = clientX e - px (dragStart s),
                      py = clientY e - py (dragStart s)\<rparr>\<rparr>)"

definition handleMouseUp :: "canvas \<Rightarrow> canvas" where
  "handleMouseUp s = s\<lparr>isDragging := False\<rparr>"

definition handleMouseLeave :: "canvas \<Rightarrow> canvas" where
  "handleMouseLeave s = s\<lparr>isDragging := False\<rparr>"

definition handleTouchStart :: "touch_event \<Rightarrow> canvas \<Rightarrow> canvas" where
  "handleTouchStart e s =
     (if length (touches e) = 1
      then s\<lparr>isDragging := True,
             dragStart := \<lparr>px = touchX (touches e ! 0) - px (pan s),
                            py = touchY (touches e ! 0) - py (pan s)\<rparr>\<rparr>
      else s)"

definition handleTouchMove :: "touch_event \<Rightarrow> canvas \<Rightarrow> canvas" where
  "handleTouchMove e s =
     (if \<not> isDragging s \<or> length (touches e) \<noteq> 1 then s
      else s\<lparr>pan := \<lparr>px = touchX (touches e ! 0) - px (dragStart s),
                      py = touchY (touches e ! 0) - py (dragStart s)\<rparr>\<rparr>)"

definition handleTouchEnd :: "canvas \<Rightarrow> canvas" where
  "handleTouchEnd s = s\<lparr>isDragging := False\<rparr>"

definition handleWheel :: "wheel_event \<Rightarrow> canvas \<Rightarrow> canvas" where
  "handleWheel e s =
     (let delta = deltaY e * (- 0.001);
          newScale = min (max 0.3 (scale s + delta)) 3
      in s\<lparr>scale := newScale\<rparr>)"

definition resetView :: "canvas \<Rightarrow> canvas" where
  "resetView s = s\<lparr>pan := \<lparr>px = 0, py = 0\<rparr>, scale := 1\<rparr>"

text \<open>
  The events the rendered element is wired to (lines 97 to 104 and the click handler of
  the reset button, line 135), and the component as a state machine over them.
\<close>

datatype event =
    MouseDown mouse_event
  | MouseMove mouse_event
  | MouseUp
  | MouseLeave
  | TouchStart touch_event
  | TouchMove touch_event
  | TouchEnd
  | Wheel wheel_event
  | ResetClick

fun step :: "event \<Rightarrow> canvas \<Rightarrow> canvas" where
  "step (MouseDown e) s = handleMouseDown e s"
| "step (MouseMove e) s = handleMouseMove e s"
| "step MouseUp s = handleMouseUp s"
| "step MouseLeave s = handleMouseLeave s"
| "step (TouchStart e) s = handleTouchStart e s"
| "step (TouchMove e) s = handleTouchMove e s"
| "step TouchEnd s = handleTouchEnd s"
| "step (Wheel e) s = handleWheel e s"
| "step ResetClick s = resetView s"

definition run :: "event list \<Rightarrow> canvas \<Rightarrow> canvas" where
  "run es s = foldl (\<lambda>s e. step e s) s es"

text \<open>An event that opens a drag, and an event that closes one.\<close>

fun starts_drag :: "event \<Rightarrow> bool" where
  "starts_drag (MouseDown e) = (button e = 0)"
| "starts_drag (TouchStart e) = (length (touches e) = 1)"
| "starts_drag _ = False"

fun ends_drag :: "event \<Rightarrow> bool" where
  "ends_drag MouseUp = True"
| "ends_drag MouseLeave = True"
| "ends_drag TouchEnd = True"
| "ends_drag _ = False"

section \<open>The explore page (src/unnamed/part_000)\<close>

subsection \<open>Strings\<close>

text \<open>
  A JavaScript string is modelled as a \<^typ>\<open>string\<close> whose characters are the code units
  0 to 255 (the Latin-1 block). \<^verbatim>\<open>String.prototype.trim\<close> removes white space and line
  terminators from both ends; in this block they are the code units 9 to 13, 32 and 160.
  \<^verbatim>\<open>toLowerCase\<close> maps A to Z, and the accented capitals 192 to 222 except the
  multiplication sign 215, to the code unit 32 above, and keeps every other code unit.
\<close>

definition isWhiteSpace :: "char \<Rightarrow> bool" where
  "isWhiteSpace c =
     (let n = (of_char c :: nat) in (9 \<le> n \<and> n \<le> 13) \<or> n = 32 \<or> n = 160)"

definition trim :: "string \<Rightarrow> string" where
  "trim s = rev (dropWhile isWhiteSpace (rev (dropWhile isWhiteSpace s)))"

definition toLower :: "char \<Rightarrow> char" where
  "toLower c =
     (let n = (of_char c :: nat)
      in if (65 \<le> n \<and> n \<le> 90) \<or> (192 \<le> n \<and> n \<le> 214) \<or> (216 \<le> n \<and> n \<le> 222)
         then char_of (n + 32) else c)"

definition toLowerCase :: "string \<Rightarrow> string" where
  "toLowerCase s = map toLower s"

text \<open>\<^verbatim>\<open>replace(/^#/, '')\<close>: the pattern matches one \<^verbatim>\<open>#\<close> at the start of the string.\<close>

fun replace_leading_hash :: "string \<Rightarrow> string" where
  "replace_leading_hash [] = []"
| "replace_leading_hash (c # cs) = (if c = CHR ''#'' then cs else c # cs)"

subsection \<open>State and collaborators\<close>

text \<open>
  The types \<^verbatim>\<open>Post\<close>, \<^verbatim>\<open>PlacedImage\<close> and \<^verbatim>\<open>ImageDimensions\<close> are declared in
  \<^verbatim>\<open>@/lib/circular-placement\<close>, which is not among the sources; the page handles their
  values without looking inside, so they are the type parameters \<open>'post\<close>, \<open>'placed\<close> and
  \<open>'dim\<close>. A \<^verbatim>\<open>File\<close> is an opaque value too.
\<close>

type_synonym image_file = string

record student_row =
  full_name :: string

record TrendingHashtag =
  hashtag :: string
  count :: int

text \<open>
  The \<^verbatim>\<open>useState\<close> cells of the page (lines 26 to 41). The last field is not a cell: it
  records the messages shown with \<^verbatim>\<open>alert\<close>.
\<close>

record ('post, 'placed, 'dim) page =
  student :: "student_row option"
  posts :: "'post list"
  placedImages :: "'placed list"
  imageDimensions :: "string \<rightharpoonup> 'dim"
  totalPosts :: int
  trendingHashtags :: "TrendingHashtag list"
  loading :: bool
  searchQuery :: string
  uploadModalOpen :: bool
  selectedImage :: "image_file option"
  imagePreview :: string
  hashtags :: "string list"
  hashtagInput :: string
  uploading :: bool
  alerts :: "string list"

definition ExplorePage :: "('post, 'placed, 'dim) page" where
  "ExplorePage =
     \<lparr>student = None, posts = [], placedImages = [], imageDimensions = Map.empty,
      totalPosts = 0, trendingHashtags = [], loading = True, searchQuery = [],
      uploadModalOpen = False, selectedImage = None, imagePreview = [], hashtags = [],
      hashtagInput = [], uploading = False, alerts = []\<rparr>"

text \<open>
  What can be thrown inside the handlers: \<^verbatim>\<open>fetch\<close> rejects, \<^verbatim>\<open>response.json()\<close>
  rejects, or one of the three functions of the placement library throws or rejects.
  A response body is taken at the shape the page reads it with; bodies of another shape
  are not modelled.
\<close>

datatype fault =
    NetworkFailure
  | JsonParseFailure
  | PreloadFailure
  | CenterFailure
  | PlacementFailure

text \<open>
  A parsed response body, with the fields the page reads from the three endpoints, and a
  response, whose \<^verbatim>\<open>json()\<close> gives the body or rejects.
\<close>

record 'post body =
  success :: bool
  data_posts :: "'post list"
  total_count :: int
  trending :: "TrendingHashtag list"
  error_message :: string

record 'post response =
  json :: "fault + 'post body"

datatype request =
    GetPosts
  | GetPostsByHashtag string
  | GetTrending nat
  | PostUpload image_file "string list" string

text \<open>
  The collaborators of one handler run: the network and the three imported functions of
  the placement library (their code is not among the sources, so they are parameters).
  \<^verbatim>\<open>pickRandomCenter\<close> gives a post or \<^verbatim>\<open>null\<close>.
\<close>

record ('post, 'placed, 'dim) world =
  fetch :: "request \<Rightarrow> fault + 'post response"
  preloadImageDimensions :: "'post list \<Rightarrow> fault + (string \<rightharpoonup> 'dim)"
  pickRandomCenter :: "'post list \<Rightarrow> fault + 'post option"
  calculateCircularPlacement ::
    "'post list \<Rightarrow> 'post \<Rightarrow> (string \<rightharpoonup> 'dim) \<Rightarrow> fault + 'placed list"

text \<open>
  The outcome of a block of statements: it ran to its end, or it threw; either way the
  setters that ran before have taken effect.
\<close>

datatype 's outcome = Done 's | Threw fault 's

fun final :: "'s outcome \<Rightarrow> 's" where
  "final (Done s) = s"
| "final (Threw x s) = s"

subsection \<open>Fetching and placing\<close>

text \<open>
  The statements guarded by \<^verbatim>\<open>allPosts.length > 0\<close> in \<^verbatim>\<open>fetchPosts\<close> (lines 87 to 95)
  and by \<^verbatim>\<open>filteredPosts.length > 0\<close> in \<^verbatim>\<open>handleSearch\<close> (lines 200 to 207), which are
  the same statements.
\<close>

definition preload_and_place ::
  "('post, 'placed, 'dim) world \<Rightarrow> 'post list \<Rightarrow> ('post, 'placed, 'dim) page
     \<Rightarrow> ('post, 'placed, 'dim) page outcome" where
  "preload_and_place w ps s =
     (case preloadImageDimensions w ps of
        Inl x \<Rightarrow> Threw x s
      | Inr dimensions \<Rightarrow>
          let s1 = s\<lparr>imageDimensions := dimensions\<rparr> in
          (case pickRandomCenter w ps of
             Inl x \<Rightarrow> Threw x s1
           | Inr None \<Rightarrow> Done s1
           | Inr (Some center) \<Rightarrow>
               (case calculateCircularPlacement w ps center dimensions of
                  Inl x \<Rightarrow> Threw x s1
                | Inr placed \<Rightarrow> Done (s1\<lparr>placedImages := placed\<rparr>))))"

text \<open>The \<^verbatim>\<open>try\<close> block of \<^verbatim>\<open>fetchPosts\<close> (lines 74 to 107).\<close>

definition fetchPosts_try ::
  "('post, 'placed, 'dim) world \<Rightarrow> ('post, 'placed, 'dim) page
     \<Rightarrow> ('post, 'placed, 'dim) page outcome" where
  "fetchPosts_try w s =
     (let s1 = s\<lparr>loading := True\<rparr> in
      case fetch w GetPosts of
        Inl x \<Rightarrow> Threw x s1
      | Inr postsResponse \<Rightarrow>
     (case json postsResponse of
        Inl x \<Rightarrow> Threw x s1
      | Inr postsData \<Rightarrow>
     (case (if success postsData
            then (let allPosts = data_posts postsData;
                      s2 = s1\<lparr>posts := allPosts, totalPosts := total_count postsData\<rparr>
                  in if length allPosts > 0 then preload_and_place w allPosts s2
                     else Done s2)
            else Done s1) of
        Threw x s3 \<Rightarrow> Threw x s3
      | Done s3 \<Rightarrow>
     (case fetch w (GetTrending 5) of
        Inl x \<Rightarrow> Threw x s3
      | Inr trendingResponse \<Rightarrow>
     (case json trendingResponse of
        Inl x \<Rightarrow> Threw x s3
      | Inr trendingData \<Rightarrow>
          Done ((if success trendingData
                 then s3\<lparr>trendingHashtags := trending trendingData\<rparr>
                 else s3)\<lparr>loading := False\<rparr>))))))"

text \<open>\<^verbatim>\<open>fetchPosts\<close>: the \<^verbatim>\<open>try\<close> block and its \<^verbatim>\<open>catch\<close> (lines 108 to 111).\<close>

definition fetchPosts ::
  "('post, 'placed, 'dim) world \<Rightarrow> ('post, 'placed, 'dim) page
     \<Rightarrow> ('post, 'placed, 'dim) page outcome" where
  "fetchPosts w s =
     (case fetchPosts_try w s of
        Done s' \<Rightarrow> Done s'
      | Threw x s' \<Rightarrow> Done (s'\<lparr>loading := False\<rparr>))"

subsection \<open>Hashtags of the upload form\<close>

definition addHashtag ::
  "string \<Rightarrow> ('post, 'placed, 'dim) page \<Rightarrow> ('post, 'placed, 'dim) page" where
  "addHashtag tag s =
     (let cleanTag = toLowerCase (replace_leading_hash (trim tag))
      in if cleanTag \<noteq> [] \<and> cleanTag \<notin> set (hashtags s)
         then s\<lparr>hashtags := hashtags s @ [cleanTag], hashtagInput := []\<rparr>
         else s)"

definition removeHashtag ::
  "string \<Rightarrow> ('post, 'placed, 'dim) page \<Rightarrow> ('post, 'placed, 'dim) page" where
  "removeHashtag tag s = s\<lparr>hashtags := filter (\<lambda>t. t \<noteq> tag) (hashtags s)\<rparr>"

text \<open>A sequence of calls of the two functions, applied from left to right.\<close>

datatype hashtag_op = AddHashtag string | RemoveHashtag string

fun apply_hashtag_op ::
  "hashtag_op \<Rightarrow> ('post, 'placed, 'dim) page \<Rightarrow> ('post, 'placed, 'dim) page" where
  "apply_hashtag_op (AddHashtag tag) s = addHashtag tag s"
| "apply_hashtag_op (RemoveHashtag tag) s = removeHashtag tag s"

definition run_hashtag_ops ::
  "hashtag_op list \<Rightarrow> ('post, 'placed, 'dim) page \<Rightarrow> ('post, 'placed, 'dim) page" where
  "run_hashtag_ops ops s = foldl (\<lambda>s x. apply_hashtag_op x s) s ops"

subsection \<open>Upload and search\<close>

text \<open>The \<^verbatim>\<open>try\<close> block of \<^verbatim>\<open>handleUpload\<close> (lines 150 to 175).\<close>

definition handleUpload_try ::
  "('post, 'placed, 'dim) world \<Rightarrow> image_file \<Rightarrow> student_row \<Rightarrow> ('post, 'placed, 'dim) page
     \<Rightarrow> ('post, 'placed, 'dim) page outcome" where
  "handleUpload_try w img st s =
     (let s1 = s\<lparr>uploading := True\<rparr> in
      case fetch w (PostUpload img (hashtags s) (full_name st)) of
        Inl x \<Rightarrow> Threw x s1
      | Inr response \<Rightarrow>
     (case json response of
        Inl x \<Rightarrow> Threw x s1
      | Inr data \<Rightarrow>
          if success data
          then fetchPosts w
                 (s1\<lparr>selectedImage := None, imagePreview := [], hashtags := [],
                     uploadModalOpen := False\<rparr>)
          else Done (s1\<lparr>alerts := alerts s1
                          @ [''Failed to upload image: '' @ error_message data]\<rparr>)))"

text \<open>
  \<^verbatim>\<open>handleUpload\<close>: the guard, the \<^verbatim>\<open>try\<close> block, its \<^verbatim>\<open>catch\<close> and its \<^verbatim>\<open>finally\<close>
  (lines 147 to 181).
\<close>

definition handleUpload ::
  "('post, 'placed, 'dim) world \<Rightarrow> ('post, 'placed, 'dim) page
     \<Rightarrow> ('post, 'placed, 'dim) page outcome" where
  "handleUpload w s =
     (case (selectedImage s, student s) of
        (Some img, Some st) \<Rightarrow>
          (case handleUpload_try w img st s of
             Done s' \<Rightarrow> Done (s'\<lparr>uploading := False\<rparr>)
           | Threw x s' \<Rightarrow>
               Done (s'\<lparr>alerts := alerts s' @ [''Failed to upload image''],
                        uploading := False\<rparr>))
      | _ \<Rightarrow> Done s)"

text \<open>The \<^verbatim>\<open>try\<close> block of \<^verbatim>\<open>handleSearch\<close> (lines 192 to 211).\<close>

definition handleSearch_try ::
  "('post, 'placed, 'dim) world \<Rightarrow> ('post, 'placed, 'dim) page
     \<Rightarrow> ('post, 'placed, 'dim) page outcome" where
  "handleSearch_try w s =
     (case fetch w (GetPostsByHashtag (searchQuery s)) of
        Inl x \<Rightarrow> Threw x s
      | Inr response \<Rightarrow>
     (case json response of
        Inl x \<Rightarrow> Threw x s
      | Inr data \<Rightarrow>
          if success data
          then (let filteredPosts = data_posts data;
                    s1 = s\<lparr>posts := filteredPosts\<rparr>
                in if length filteredPosts > 0 then preload_and_place w filteredPosts s1
                   else Done (s1\<lparr>placedImages := []\<rparr>))
          else Done s))"

text \<open>
  \<^verbatim>\<open>handleSearch\<close>: a blank query runs \<^verbatim>\<open>fetchPosts\<close>; otherwise the \<^verbatim>\<open>try\<close> block and
  its \<^verbatim>\<open>catch\<close>, which only logs (lines 186 to 214).
\<close>

definition handleSearch ::
  "('post, 'placed, 'dim) world \<Rightarrow> ('post, 'placed, 'dim) page
     \<Rightarrow> ('post, 'placed, 'dim) page outcome" where
  "handleSearch w s =
     (if trim (searchQuery s) = [] then fetchPosts w s
      else (case handleSearch_try w s of
              Done s' \<Rightarrow> Done s'
            | Threw x s' \<Rightarrow> Done s'))"

section \<open>Properties of the viewport\<close>

lemma run_Nil [simp]: "run [] s = s"
  by (simp add: run_def)

lemma run_snoc [simp]: "run (es @ [e]) s = step e (run es s)"
  by (simp add: run_def)

lemma run_Cons: "run (e # es) s = run es (step e s)"
  by (simp add: run_def)

lemma scale_handleWheel_bounds:
  "0.3 \<le> scale (handleWheel e s) \<and> scale (handleWheel e s) \<le> 3"
  by (simp add: handleWheel_def Let_def)

lemma scale_step_bounds:
  assumes "0.3 \<le> scale s" and "scale s \<le> 3"
  shows "0.3 \<le> scale (step e s) \<and> scale (step e s) \<le> 3"
  using assms
  by (cases e)
     (simp_all add: handleMouseDown_def handleMouseMove_def handleMouseUp_def
        handleMouseLeave_def handleTouchStart_def handleTouchMove_def handleTouchEnd_def
        handleWheel_def resetView_def Let_def)

lemma scale_run_bounds:
  assumes "0.3 \<le> scale s" and "scale s \<le> 3"
  shows "0.3 \<le> scale (run es s) \<and> scale (run es s) \<le> 3"
proof (induction es rule: rev_induct)
  case Nil
  from assms show ?case by simp
next
  case (snoc e es)
  then show ?case using scale_step_bounds [of "run es s" e] by simp
qed

text \<open>
  C1. Each wheel event replaces the scale with the clamp of
  \<open>scale + deltaY * (-0.001)\<close> to the range from 0.3 to 3, the initial scale is 0.3, and
  after any sequence of wheel events applied to the initial component, whatever their
  deltas, the scale lies between 0.3 and 3.
\<close>

theorem C1_wheel_scale_in_range:
  "scale (handleWheel e s) = min (max 0.3 (scale s + deltaY e * (- 0.001))) 3
   \<and> scale DraggableCanvas = 0.3
   \<and> 0.3 \<le> scale (run (map Wheel ws) DraggableCanvas)
   \<and> scale (run (map Wheel ws) DraggableCanvas) \<le> 3"
proof -
  have "0.3 \<le> scale DraggableCanvas" and "scale DraggableCanvas \<le> 3"
    by (simp_all add: DraggableCanvas_def)
  then have "0.3 \<le> scale (run (map Wheel ws) DraggableCanvas)
      \<and> scale (run (map Wheel ws) DraggableCanvas) \<le> 3"
    by (rule scale_run_bounds)
  then show ?thesis
    by (simp add: handleWheel_def Let_def DraggableCanvas_def)
qed


subsection \<open>Dragging\<close>

text \<open>
  An event that neither opens nor closes a drag keeps the dragging flag and the anchor.
\<close>

lemma step_keeps_anchor:
  "\<not> starts_drag e \<Longrightarrow> dragStart (step e s) = dragStart s"
  by (cases e)
     (simp_all add: handleMouseDown_def handleMouseMove_def handleMouseUp_def
        handleMouseLeave_def handleTouchStart_def handleTouchMove_def handleTouchEnd_def
        handleWheel_def resetView_def Let_def)

lemma step_stays_dragging:
  "\<not> ends_drag e \<Longrightarrow> isDragging s \<Longrightarrow> isDragging (step e s)"
  by (cases e)
     (simp_all add: handleMouseDown_def handleMouseMove_def handleTouchStart_def
        handleTouchMove_def handleWheel_def resetView_def Let_def)

lemma run_keeps_anchor:
  assumes "\<forall>x \<in> set es. \<not> starts_drag x \<and> \<not> ends_drag x" and "isDragging s"
  shows "isDragging (run es s) \<and> dragStart (run es s) = dragStart s"
  using assms(1)
proof (induction es rule: rev_induct)
  case Nil
  from assms(2) show ?case by simp
next
  case (snoc e es)
  then have "isDragging (run es s)" and "dragStart (run es s) = dragStart s"
    and "\<not> starts_drag e" and "\<not> ends_drag e"
    by simp_all
  then show ?case
    using step_keeps_anchor [of e "run es s"] step_stays_dragging [of e "run es s"]
    by simp
qed

text \<open>
  C2, as stated, fails: from the initial component a first drag leaves the pan offset at
  \<open>(1, 2)\<close>; a left-button mouse-down at \<open>(10, 20)\<close> opens a second drag, a single-touch
  touch-start at \<open>(95, 93)\<close> follows while the viewport is dragging, and the mouse-move to
  \<open>(15, 26)\<close> sets the pan offset to \<open>(-79, -65)\<close>, not to
  \<open>(1 + (15 - 10), 2 + (26 - 20))\<close>.
\<close>

theorem C2_counterexample:
  "pan (run [MouseDown \<lparr>button = 0, clientX = 0, clientY = 0\<rparr>,
            MouseMove \<lparr>button = 0, clientX = 1, clientY = 2\<rparr>, MouseUp] DraggableCanvas)
     = \<lparr>px = 1, py = 2\<rparr>
   \<and> isDragging
       (run [MouseDown \<lparr>button = 0, clientX = 0, clientY = 0\<rparr>,
             MouseMove \<lparr>button = 0, clientX = 1, clientY = 2\<rparr>, MouseUp,
             MouseDown \<lparr>button = 0, clientX = 10, clientY = 20\<rparr>,
             TouchStart \<lparr>touches = [\<lparr>touchX = 95, touchY = 93\<rparr>]\<rparr>] DraggableCanvas)
   \<and> pan (run [MouseDown \<lparr>button = 0, clientX = 0, clientY = 0\<rparr>,
               MouseMove \<lparr>button = 0, clientX = 1, clientY = 2\<rparr>, MouseUp,
               MouseDown \<lparr>button = 0, clientX = 10, clientY = 20\<rparr>,
               TouchStart \<lparr>touches = [\<lparr>touchX = 95, touchY = 93\<rparr>]\<rparr>,
               MouseMove \<lparr>button = 0, clientX = 15, clientY = 26\<rparr>] DraggableCanvas)
     = \<lparr>px = - 79, py = - 65\<rparr>
   \<and> pan (run [MouseDown \<lparr>button = 0, clientX = 0, clientY = 0\<rparr>,
               MouseMove \<lparr>button = 0, clientX = 1, clientY = 2\<rparr>, MouseUp,
               MouseDown \<lparr>button = 0, clientX = 10, clientY = 20\<rparr>,
               TouchStart \<lparr>touches = [\<lparr>touchX = 95, touchY = 93\<rparr>]\<rparr>,
               MouseMove \<lparr>button = 0, clientX = 15, clientY = 26\<rparr>] DraggableCanvas)
     \<noteq> \<lparr>px = 1 + (15 - 10), py = 2 + (26 - 20)\<rparr>"
  by (simp add: run_def DraggableCanvas_def handleMouseDown_def handleMouseMove_def
        handleMouseUp_def handleTouchStart_def)

text \<open>
  C2, amended. A left-button mouse-down at pointer position \<open>e0\<close>, with pan offset
  \<open>pan s\<close>, opens a drag and stores the anchor \<open>e0 - pan s\<close>. After any events that
  neither open a drag (a left-button mouse-down, a single-touch touch-start) nor close
  one (mouse-up, mouse-leave, touch-end), a mouse-move to \<open>e\<close> sets the pan offset to
  \<open>e - (e0 - pan s)\<close>, the pointer position minus the anchor: it is computed from the
  anchor and not accumulated, so it depends on the position of that move only, not on
  the number or the order of the events in between.
\<close>

theorem C2_drag_pan_from_anchor:
  assumes "button e0 = 0"
    and "\<forall>x \<in> set es. \<not> starts_drag x \<and> \<not> ends_drag x"
    and "\<forall>x \<in> set es'. \<not> starts_drag x \<and> \<not> ends_drag x"
  shows "dragStart (handleMouseDown e0 s)
           = \<lparr>px = clientX e0 - px (pan s), py = clientY e0 - py (pan s)\<rparr>
   \<and> pan (step (MouseMove e) (run es (handleMouseDown e0 s))) =
           \<lparr>px = clientX e - (clientX e0 - px (pan s)),
            py = clientY e - (clientY e0 - py (pan s))\<rparr>
   \<and> pan (step (MouseMove e) (run es (handleMouseDown e0 s))) =
       pan (step (MouseMove e) (run es' (handleMouseDown e0 s)))"
proof -
  let ?d = "handleMouseDown e0 s"
  have d: "isDragging ?d"
    and a: "dragStart ?d = \<lparr>px = clientX e0 - px (pan s), py = clientY e0 - py (pan s)\<rparr>"
    using assms(1) by (simp_all add: handleMouseDown_def)
  have m: "pan (step (MouseMove e) (run xs ?d)) =
      \<lparr>px = clientX e - (clientX e0 - px (pan s)),
       py = clientY e - (clientY e0 - py (pan s))\<rparr>"
    if "\<forall>x \<in> set xs. \<not> starts_drag x \<and> \<not> ends_drag x" for xs
    using run_keeps_anchor [OF that d] a by (simp add: handleMouseMove_def)
  show ?thesis
    using a m [OF assms(2)] m [OF assms(3)] by simp
qed

theorem C2_drag_pan_from_anchor_witness:
  "pan (step (MouseMove \<lparr>button = 0, clientX = 13, clientY = 24\<rparr>)
         (run [MouseMove \<lparr>button = 0, clientX = 50, clientY = 60\<rparr>,
               Wheel \<lparr>deltaY = 100\<rparr>, ResetClick,
               TouchMove \<lparr>touches = [\<lparr>touchX = 7, touchY = 8\<rparr>]\<rparr>]
            (handleMouseDown \<lparr>button = 0, clientX = 10, clientY = 20\<rparr>
               (DraggableCanvas\<lparr>pan := \<lparr>px = 1, py = 2\<rparr>\<rparr>))))
   = \<lparr>px = 4, py = 6\<rparr>
   \<and> pan (step (MouseMove \<lparr>button = 0, clientX = 13, clientY = 24\<rparr>)
         (run []
            (handleMouseDown \<lparr>button = 0, clientX = 10, clientY = 20\<rparr>
               (DraggableCanvas\<lparr>pan := \<lparr>px = 1, py = 2\<rparr>\<rparr>))))
   = \<lparr>px = 4, py = 6\<rparr>"
proof -
  let ?d = "\<lparr>button = 0, clientX = 10, clientY = 20\<rparr>"
  let ?m = "\<lparr>button = 0, clientX = 13, clientY = 24\<rparr>"
  let ?s = "DraggableCanvas\<lparr>pan := \<lparr>px = 1, py = 2\<rparr>\<rparr>"
  let ?es = "[MouseMove \<lparr>button = 0, clientX = 50, clientY = 60\<rparr>,
              Wheel \<lparr>deltaY = 100\<rparr>, ResetClick,
              TouchMove \<lparr>touches = [\<lparr>touchX = 7, touchY = 8\<rparr>]\<rparr>]"
  have b: "button ?d = 0" by simp
  have k: "\<forall>x \<in> set ?es. \<not> starts_drag x \<and> \<not> ends_drag x" by simp
  have n: "\<forall>x \<in> set ([] :: event list). \<not> starts_drag x \<and> \<not> ends_drag x" by simp
  note t = C2_drag_pan_from_anchor [of ?d ?es "[]" ?s ?m, OF b k n]
  have first: "pan (step (MouseMove ?m) (run ?es (handleMouseDown ?d ?s))) = \<lparr>px = 4, py = 6\<rparr>"
    using t [THEN conjunct2, THEN conjunct1] by simp
  have same: "pan (step (MouseMove ?m) (run [] (handleMouseDown ?d ?s)))
      = pan (step (MouseMove ?m) (run ?es (handleMouseDown ?d ?s)))"
    using t [THEN conjunct2, THEN conjunct2] by simp
  from first same show ?thesis by simp
qed

subsection \<open>Reset\<close>

text \<open>
  C6. From any viewport state the reset action sets the pan offset to \<open>(0, 0)\<close> and the
  scale to one fixed value, which is 1; it is the action the click on the reset button
  runs.
\<close>

theorem C6_reset_restores_view:
  "pan (resetView s) = \<lparr>px = 0, py = 0\<rparr> \<and> scale (resetView s) = 1
   \<and> step ResetClick s = resetView s"
  by (simp add: resetView_def)

text \<open>
  C9. The initial scale is 0.3 and the reset action sets the scale to 1, so the state
  after a reset never has the initial scale, and is never the initial state.
\<close>

theorem C9_reset_is_not_initial_scale:
  "scale DraggableCanvas = 0.3 \<and> scale (resetView s) = 1
   \<and> scale (resetView s) \<noteq> scale DraggableCanvas
   \<and> resetView s \<noteq> DraggableCanvas"
proof -
  have "scale (resetView s) \<noteq> scale DraggableCanvas"
    by (simp add: resetView_def DraggableCanvas_def)
  moreover from this have "resetView s \<noteq> DraggableCanvas"
    by auto
  ultimately show ?thesis
    by (simp add: resetView_def DraggableCanvas_def)
qed

subsection \<open>Touch input\<close>

text \<open>
  C8. A touch-start with exactly one touch does what a left-button mouse-down at the
  position of that touch does; a single-touch move while dragging sets the pan offset to
  the touch position minus the anchor, which after a single-touch start at \<open>t0\<close> is
  \<open>t - (t0 - pan s)\<close>; a touch-start or touch-move whose touch count is not one leaves the
  state as it is, in particular the dragging flag and the pan offset.
\<close>

theorem C8_touch_mirrors_mouse:
  "(length (touches e) = 1 \<longrightarrow>
      handleTouchStart e s =
        handleMouseDown \<lparr>button = 0, clientX = touchX (touches e ! 0),
                         clientY = touchY (touches e ! 0)\<rparr> s)
   \<and> (length (touches e) = 1 \<and> isDragging s \<longrightarrow>
        pan (handleTouchMove e s) =
          \<lparr>px = touchX (touches e ! 0) - px (dragStart s),
           py = touchY (touches e ! 0) - py (dragStart s)\<rparr>
        \<and> handleTouchMove e s =
            handleMouseMove \<lparr>button = 0, clientX = touchX (touches e ! 0),
                             clientY = touchY (touches e ! 0)\<rparr> s)
   \<and> (length (touches e0) = 1 \<and> length (touches e) = 1 \<longrightarrow>
        pan (handleTouchMove e (handleTouchStart e0 s)) =
          \<lparr>px = touchX (touches e ! 0) - (touchX (touches e0 ! 0) - px (pan s)),
           py = touchY (touches e ! 0) - (touchY (touches e0 ! 0) - py (pan s))\<rparr>)
   \<and> (length (touches e) \<noteq> 1 \<longrightarrow>
        handleTouchStart e s = s \<and> handleTouchMove e s = s
        \<and> isDragging (handleTouchStart e s) = isDragging s
        \<and> pan (handleTouchStart e s) = pan s
        \<and> isDragging (handleTouchMove e s) = isDragging s
        \<and> pan (handleTouchMove e s) = pan s)"
  by (simp add: handleTouchStart_def handleTouchMove_def handleMouseDown_def
        handleMouseMove_def)

theorem C8_touch_mirrors_mouse_witness:
  "pan (handleTouchMove \<lparr>touches = [\<lparr>touchX = 13, touchY = 24\<rparr>]\<rparr>
         (handleTouchStart \<lparr>touches = [\<lparr>touchX = 10, touchY = 20\<rparr>]\<rparr>
            (DraggableCanvas\<lparr>pan := \<lparr>px = 1, py = 2\<rparr>\<rparr>)))
     = \<lparr>px = 4, py = 6\<rparr>
   \<and> handleTouchStart \<lparr>touches = [\<lparr>touchX = 1, touchY = 2\<rparr>, \<lparr>touchX = 3, touchY = 4\<rparr>]\<rparr>
        DraggableCanvas = DraggableCanvas
   \<and> handleTouchMove \<lparr>touches = []\<rparr> (DraggableCanvas\<lparr>isDragging := True\<rparr>)
        = DraggableCanvas\<lparr>isDragging := True\<rparr>"
  using C8_touch_mirrors_mouse
    [of "\<lparr>touches = [\<lparr>touchX = 13, touchY = 24\<rparr>]\<rparr>"
        "DraggableCanvas\<lparr>pan := \<lparr>px = 1, py = 2\<rparr>\<rparr>"
        "\<lparr>touches = [\<lparr>touchX = 10, touchY = 20\<rparr>]\<rparr>"]
    C8_touch_mirrors_mouse
    [of "\<lparr>touches = [\<lparr>touchX = 1, touchY = 2\<rparr>, \<lparr>touchX = 3, touchY = 4\<rparr>]\<rparr>"
        "DraggableCanvas" "\<lparr>touches = []\<rparr>"]
    C8_touch_mirrors_mouse
    [of "\<lparr>touches = []\<rparr>" "DraggableCanvas\<lparr>isDragging := True\<rparr>" "\<lparr>touches = []\<rparr>"]
  by simp


subsection \<open>When the pan offset changes\<close>

lemma step_ends_drag: "ends_drag e \<Longrightarrow> \<not> isDragging (step e s)"
  by (cases e) (simp_all add: handleMouseUp_def handleMouseLeave_def handleTouchEnd_def)

lemma step_keeps_dragging:
  "\<not> starts_drag e \<Longrightarrow> \<not> ends_drag e \<Longrightarrow> isDragging (step e s) = isDragging s"
  by (cases e)
     (simp_all add: handleMouseDown_def handleMouseMove_def handleTouchStart_def
        handleTouchMove_def handleWheel_def resetView_def Let_def)

lemma step_pan_idle:
  "\<not> isDragging s \<Longrightarrow> e \<noteq> ResetClick \<Longrightarrow> pan (step e s) = pan s"
  by (cases e)
     (simp_all add: handleMouseDown_def handleMouseMove_def handleMouseUp_def
        handleMouseLeave_def handleTouchStart_def handleTouchMove_def handleTouchEnd_def
        handleWheel_def Let_def)

text \<open>
  A reachable state is dragging only when a pointer-down (a left-button mouse-down or a
  single-touch start) has happened and no pointer-up, leave or touch-end has happened
  since.
\<close>

lemma dragging_since_down:
  assumes "isDragging (run es DraggableCanvas)"
  shows "\<exists>es1 d es2. es = es1 @ d # es2 \<and> starts_drag d \<and> (\<forall>x \<in> set es2. \<not> ends_drag x)"
  using assms
proof (induction es rule: rev_induct)
  case Nil
  then show ?case by (simp add: DraggableCanvas_def)
next
  case (snoc e es)
  show ?case
  proof (cases "starts_drag e")
    case True
    then have "es @ [e] = es @ e # [] \<and> starts_drag e \<and> (\<forall>x \<in> set []. \<not> ends_drag x)"
      by simp
    then show ?thesis by blast
  next
    case False
    have ne: "\<not> ends_drag e"
      using snoc.prems step_ends_drag [of e "run es DraggableCanvas"] by auto
    with False snoc.prems have "isDragging (run es DraggableCanvas)"
      using step_keeps_dragging [of e "run es DraggableCanvas"] by simp
    then obtain es1 d es2 where
      "es = es1 @ d # es2" "starts_drag d" "\<forall>x \<in> set es2. \<not> ends_drag x"
      using snoc.IH by blast
    with ne have "es @ [e] = es1 @ d # (es2 @ [e]) \<and> starts_drag d
        \<and> (\<forall>x \<in> set (es2 @ [e]). \<not> ends_drag x)"
      by simp
    then show ?thesis by blast
  qed
qed

text \<open>
  C7, as stated, fails: after a completed drag (mouse-down, mouse-move, mouse-up) the
  viewport is not dragging, and a click on the reset button changes the pan offset.
\<close>

theorem C7_counterexample:
  "\<not> isDragging
       (run [MouseDown \<lparr>button = 0, clientX = 0, clientY = 0\<rparr>,
             MouseMove \<lparr>button = 0, clientX = 5, clientY = 7\<rparr>, MouseUp] DraggableCanvas)
   \<and> pan (run [MouseDown \<lparr>button = 0, clientX = 0, clientY = 0\<rparr>,
               MouseMove \<lparr>button = 0, clientX = 5, clientY = 7\<rparr>, MouseUp, ResetClick]
             DraggableCanvas)
     \<noteq> pan (run [MouseDown \<lparr>button = 0, clientX = 0, clientY = 0\<rparr>,
                 MouseMove \<lparr>button = 0, clientX = 5, clientY = 7\<rparr>, MouseUp]
               DraggableCanvas)"
  by (simp add: run_def DraggableCanvas_def handleMouseDown_def handleMouseMove_def
        handleMouseUp_def resetView_def)

text \<open>
  C7, amended. After a mouse-up or mouse-leave event the viewport is not dragging; while
  it is not dragging, no mouse-move event changes the pan offset, and no other event
  does except the reset action; hence, in any run of the component from its initial
  state, an event that changes the pan offset is the reset action or comes after a
  pointer-down with no pointer-up, leave or touch-end in between.
\<close>

theorem C7_pan_changes_only_in_drag_or_reset:
  "\<not> isDragging (step MouseUp s) \<and> \<not> isDragging (step MouseLeave s)
   \<and> (\<not> isDragging s \<longrightarrow> pan (step (MouseMove m) s) = pan s)
   \<and> (\<not> isDragging s \<and> e \<noteq> ResetClick \<longrightarrow> pan (step e s) = pan s)
   \<and> (pan (step e (run es DraggableCanvas)) \<noteq> pan (run es DraggableCanvas) \<longrightarrow>
        e = ResetClick
        \<or> (\<exists>es1 d es2. es = es1 @ d # es2 \<and> starts_drag d
              \<and> (\<forall>x \<in> set es2. \<not> ends_drag x)))"
proof -
  have "\<not> isDragging (step MouseUp s)" and "\<not> isDragging (step MouseLeave s)"
    by (simp_all add: handleMouseUp_def handleMouseLeave_def)
  moreover have "\<not> isDragging s \<longrightarrow> pan (step (MouseMove m) s) = pan s"
    using step_pan_idle [of s "MouseMove m"] by simp
  moreover have "\<not> isDragging s \<and> e \<noteq> ResetClick \<longrightarrow> pan (step e s) = pan s"
    using step_pan_idle [of s e] by simp
  moreover have "pan (step e (run es DraggableCanvas)) \<noteq> pan (run es DraggableCanvas) \<longrightarrow>
        e = ResetClick
        \<or> (\<exists>es1 d es2. es = es1 @ d # es2 \<and> starts_drag d
              \<and> (\<forall>x \<in> set es2. \<not> ends_drag x))"
    using step_pan_idle [of "run es DraggableCanvas" e] dragging_since_down [of es]
    by blast
  ultimately show ?thesis by blast
qed

theorem C7_pan_changes_only_in_drag_or_reset_witness:
  "pan (step (MouseMove \<lparr>button = 0, clientX = 5, clientY = 7\<rparr>) DraggableCanvas)
     = pan DraggableCanvas
   \<and> pan (step (MouseMove \<lparr>button = 0, clientX = 5, clientY = 7\<rparr>)
           (run [MouseDown \<lparr>button = 0, clientX = 0, clientY = 0\<rparr>] DraggableCanvas))
     \<noteq> pan (run [MouseDown \<lparr>button = 0, clientX = 0, clientY = 0\<rparr>] DraggableCanvas)
   \<and> (\<exists>es1 d es2. [MouseDown \<lparr>button = 0, clientX = 0, clientY = 0\<rparr>] = es1 @ d # es2
         \<and> starts_drag d \<and> (\<forall>x \<in> set es2. \<not> ends_drag x))"
proof -
  let ?m = "\<lparr>button = 0, clientX = 5, clientY = 7\<rparr>"
  let ?d = "\<lparr>button = 0, clientX = 0, clientY = 0\<rparr>"
  have idle: "\<not> isDragging DraggableCanvas"
    by (simp add: DraggableCanvas_def)
  have moved: "pan (step (MouseMove ?m) (run [MouseDown ?d] DraggableCanvas))
      \<noteq> pan (run [MouseDown ?d] DraggableCanvas)"
    by (simp add: run_def DraggableCanvas_def handleMouseDown_def handleMouseMove_def)
  have neq: "MouseMove ?m \<noteq> ResetClick"
    by simp
  from C7_pan_changes_only_in_drag_or_reset [of DraggableCanvas ?m "MouseMove ?m" "[MouseDown ?d]"]
    idle moved neq
  show ?thesis by blast
qed

section \<open>Properties of the explore page\<close>

subsection \<open>Hashtags\<close>

lemma toLower_idem: "toLower (toLower c) = toLower c"
  by (auto simp add: toLower_def Let_def)

lemma toLowerCase_idem: "toLowerCase (toLowerCase t) = toLowerCase t"
  by (simp add: toLowerCase_def toLower_idem)

lemma toLower_hash: "toLower c = CHR ''#'' \<longleftrightarrow> c = CHR ''#''"
proof
  assume h: "toLower c = CHR ''#''"
  show "c = CHR ''#''"
  proof (rule ccontr)
    assume n: "c \<noteq> CHR ''#''"
    with h have up: "toLower c = char_of (of_char c + 32 :: nat)"
       and rng: "(65 \<le> (of_char c::nat) \<and> (of_char c::nat) \<le> 90) \<or> (192 \<le> (of_char c::nat) \<and> (of_char c::nat) \<le> 214) \<or> (216 \<le> (of_char c::nat) \<and> (of_char c::nat) \<le> 222)"
      by (auto simp add: toLower_def Let_def split: if_splits)
    from h up have "(of_char (char_of (of_char c + 32 :: nat)) :: nat) = of_char (CHR ''#'')"
      by simp
    then have "(of_char c + 32) mod 256 = (35::nat)" by simp
    with rng show False by auto
  qed
next
  assume "c = CHR ''#''"
  then show "toLower c = CHR ''#''" by (simp add: toLower_def)
qed

lemma addHashtag_cases:
  "hashtags (addHashtag tag s) = hashtags s
   \<or> hashtags (addHashtag tag s) = hashtags s @ [toLowerCase (replace_leading_hash (trim tag))]"
  by (simp add: addHashtag_def Let_def)

lemma addHashtag_keeps:
  assumes "distinct (hashtags s)" and "\<forall>t \<in> set (hashtags s). t \<noteq> [] \<and> toLowerCase t = t"
  shows "distinct (hashtags (addHashtag tag s))
     \<and> (\<forall>t \<in> set (hashtags (addHashtag tag s)). t \<noteq> [] \<and> toLowerCase t = t)"
  using assms by (auto simp add: addHashtag_def Let_def toLowerCase_idem)

lemma removeHashtag_keeps:
  assumes "distinct (hashtags s)" and "\<forall>t \<in> set (hashtags s). t \<noteq> [] \<and> toLowerCase t = t"
  shows "distinct (hashtags (removeHashtag tag s))
     \<and> (\<forall>t \<in> set (hashtags (removeHashtag tag s)). t \<noteq> [] \<and> toLowerCase t = t)"
  using assms by (auto simp add: removeHashtag_def)

lemma run_hashtag_ops_snoc:
  "run_hashtag_ops (ops @ [x]) s = apply_hashtag_op x (run_hashtag_ops ops s)"
  by (simp add: run_hashtag_ops_def)

lemma hashtag_ops_keep:
  assumes "distinct (hashtags s)" and "\<forall>t \<in> set (hashtags s). t \<noteq> [] \<and> toLowerCase t = t"
  shows "distinct (hashtags (run_hashtag_ops ops s))
     \<and> (\<forall>t \<in> set (hashtags (run_hashtag_ops ops s)). t \<noteq> [] \<and> toLowerCase t = t)"
proof (induction ops rule: rev_induct)
  case Nil
  from assms show ?case by (simp add: run_hashtag_ops_def)
next
  case (snoc x ops)
  let ?s = "run_hashtag_ops ops s"
  from snoc have d: "distinct (hashtags ?s)"
    and l: "\<forall>t \<in> set (hashtags ?s). t \<noteq> [] \<and> toLowerCase t = t"
    by simp_all
  show ?case
  proof (cases x)
    case (AddHashtag tag)
    then show ?thesis
      using addHashtag_keeps [OF d l, of tag] by (simp add: run_hashtag_ops_snoc)
  next
    case (RemoveHashtag tag)
    then show ?thesis
      using removeHashtag_keeps [OF d l, of tag] by (simp add: run_hashtag_ops_snoc)
  qed
qed

lemma hashtags_invariant:
  "distinct (hashtags (run_hashtag_ops ops (ExplorePage :: ('post, 'placed, 'dim) page)))
   \<and> (\<forall>t \<in> set (hashtags (run_hashtag_ops ops (ExplorePage :: ('post, 'placed, 'dim) page))).
         t \<noteq> [] \<and> toLowerCase t = t)"
  by (rule hashtag_ops_keep) (simp_all add: ExplorePage_def)

lemma addHashtag_single_hash:
  assumes "\<not> (\<exists>r. trim tag = CHR ''#'' # CHR ''#'' # r)"
    and "t \<in> set (hashtags (addHashtag tag s))" and "t \<notin> set (hashtags s)"
  shows "t \<noteq> [] \<and> hd t \<noteq> CHR ''#''"
proof -
  let ?c = "toLowerCase (replace_leading_hash (trim tag))"
  from assms(2,3) have t: "t = ?c" and ne: "?c \<noteq> []"
    by (auto simp add: addHashtag_def Let_def split: if_splits)
  have "hd ?c \<noteq> CHR ''#''"
  proof (cases "trim tag")
    case Nil
    with ne show ?thesis by (simp add: toLowerCase_def)
  next
    case (Cons a as)
    show ?thesis
    proof (cases "a = CHR ''#''")
      case True
      with Cons ne obtain b bs where "as = b # bs"
        by (cases as) (auto simp add: toLowerCase_def)
      with Cons True assms(1) have "b \<noteq> CHR ''#''" by auto
      with Cons True \<open>as = b # bs\<close> show ?thesis
        by (simp add: toLowerCase_def toLower_hash)
    next
      case False
      with Cons show ?thesis by (simp add: toLowerCase_def toLower_hash)
    qed
  qed
  with t ne show ?thesis by simp
qed

text \<open>
  C3. The input \<^verbatim>\<open>##milan\<close>, added to the empty hashtag list, is stored as
  \<^verbatim>\<open>#milan\<close>: the list then holds a tag with a leading \<^verbatim>\<open>#\<close>, since the
  pattern removes one \<^verbatim>\<open>#\<close> only. (The rest of the invariant, tags nonempty, lowercase
  and without duplicates, holds: \<open>hashtags_invariant\<close>.)
\<close>

theorem C3_double_hash_keeps_leading_hash:
  "hashtags (addHashtag ''##milan'' (ExplorePage :: (nat, nat, nat) page)) = [''#milan'']
   \<and> hd (hd (hashtags (addHashtag ''##milan'' (ExplorePage :: (nat, nat, nat) page)))) = CHR ''#''"
  by (simp add: addHashtag_def ExplorePage_def trim_def isWhiteSpace_def toLowerCase_def
        toLower_def Let_def)


subsection \<open>An empty working set\<close>

text \<open>
  With a successful response of zero posts, both handlers skip the preloader, the center
  picker and the placement engine (their results do not depend on them).
  \<^verbatim>\<open>handleSearch\<close> then empties the placed-image list; \<^verbatim>\<open>fetchPosts\<close> leaves it as it
  was.
\<close>

lemma empty_set_skips_placement:
  assumes "fetch w' = fetch w"
  shows "fetch w GetPosts = Inr r \<and> json r = Inr d \<and> success d \<and> data_posts d = []
         \<longrightarrow> fetchPosts w' s = fetchPosts w s"
    and "fetch w (GetPostsByHashtag (searchQuery s)) = Inr r \<and> json r = Inr d \<and> success d
         \<and> data_posts d = [] \<and> trim (searchQuery s) \<noteq> []
         \<longrightarrow> handleSearch w' s = handleSearch w s"
  using assms
  by (simp_all add: fetchPosts_def fetchPosts_try_def handleSearch_def handleSearch_try_def
        Let_def)

lemma fetchPosts_empty_keeps_placed:
  assumes "fetch w GetPosts = Inr r" and "json r = Inr d" and "success d"
    and "data_posts d = []"
  shows "placedImages (final (fetchPosts w s)) = placedImages s"
    and "posts (final (fetchPosts w s)) = []"
  using assms
  by (simp_all add: fetchPosts_def fetchPosts_try_def Let_def split: sum.splits)

lemma handleSearch_empty_clears_placed:
  assumes "trim (searchQuery s) \<noteq> []"
    and "fetch w (GetPostsByHashtag (searchQuery s)) = Inr r" and "json r = Inr d"
    and "success d" and "data_posts d = []"
  shows "placedImages (final (handleSearch w s)) = []"
  using assms by (simp add: handleSearch_def handleSearch_try_def)

text \<open>
  C4. A first \<^verbatim>\<open>fetchPosts\<close> from the initial page gets one post, placed as \<open>[7]\<close>; a
  second \<^verbatim>\<open>fetchPosts\<close> gets a successful response with zero posts: the post list is
  empty and the placed-image list is still \<open>[7]\<close>. A hashtag search with the same response
  empties the placed-image list.
\<close>

theorem C4_fetchPosts_keeps_stale_placement:
  "placedImages (final (fetchPosts
         \<lparr>fetch = (\<lambda>q. Inr \<lparr>json = Inr \<lparr>success = True, data_posts = [1], total_count = 1,
                                         trending = [], error_message = []\<rparr>\<rparr>),
          preloadImageDimensions = (\<lambda>ps. Inr Map.empty),
          pickRandomCenter = (\<lambda>ps. Inr (Some 1)),
          calculateCircularPlacement = (\<lambda>ps c d. Inr [7])\<rparr>
         (ExplorePage :: (nat, nat, nat) page))) = [7]
   \<and> posts (final (fetchPosts
      \<lparr>fetch = (\<lambda>q. Inr \<lparr>json = Inr \<lparr>success = True, data_posts = [], total_count = 0,
                                      trending = [], error_message = []\<rparr>\<rparr>),
       preloadImageDimensions = (\<lambda>ps. Inr Map.empty),
       pickRandomCenter = (\<lambda>ps. Inr None),
       calculateCircularPlacement = (\<lambda>ps c d. Inr [])\<rparr>
      (final (fetchPosts
         \<lparr>fetch = (\<lambda>q. Inr \<lparr>json = Inr \<lparr>success = True, data_posts = [1], total_count = 1,
                                         trending = [], error_message = []\<rparr>\<rparr>),
          preloadImageDimensions = (\<lambda>ps. Inr Map.empty),
          pickRandomCenter = (\<lambda>ps. Inr (Some 1)),
          calculateCircularPlacement = (\<lambda>ps c d. Inr [7])\<rparr>
         (ExplorePage :: (nat, nat, nat) page))))) = []
   \<and> placedImages (final (fetchPosts
      \<lparr>fetch = (\<lambda>q. Inr \<lparr>json = Inr \<lparr>success = True, data_posts = [], total_count = 0,
                                      trending = [], error_message = []\<rparr>\<rparr>),
       preloadImageDimensions = (\<lambda>ps. Inr Map.empty),
       pickRandomCenter = (\<lambda>ps. Inr None),
       calculateCircularPlacement = (\<lambda>ps c d. Inr [])\<rparr>
      (final (fetchPosts
         \<lparr>fetch = (\<lambda>q. Inr \<lparr>json = Inr \<lparr>success = True, data_posts = [1], total_count = 1,
                                         trending = [], error_message = []\<rparr>\<rparr>),
          preloadImageDimensions = (\<lambda>ps. Inr Map.empty),
          pickRandomCenter = (\<lambda>ps. Inr (Some 1)),
          calculateCircularPlacement = (\<lambda>ps c d. Inr [7])\<rparr>
         (ExplorePage :: (nat, nat, nat) page))))) = [7]
   \<and> placedImages (final (handleSearch
      \<lparr>fetch = (\<lambda>q. Inr \<lparr>json = Inr \<lparr>success = True, data_posts = [], total_count = 0,
                                      trending = [], error_message = []\<rparr>\<rparr>),
       preloadImageDimensions = (\<lambda>ps. Inr Map.empty),
       pickRandomCenter = (\<lambda>ps. Inr None),
       calculateCircularPlacement = (\<lambda>ps c d. Inr [])\<rparr>
      ((final (fetchPosts
         \<lparr>fetch = (\<lambda>q. Inr \<lparr>json = Inr \<lparr>success = True, data_posts = [1], total_count = 1,
                                         trending = [], error_message = []\<rparr>\<rparr>),
          preloadImageDimensions = (\<lambda>ps. Inr Map.empty),
          pickRandomCenter = (\<lambda>ps. Inr (Some 1)),
          calculateCircularPlacement = (\<lambda>ps c d. Inr [7])\<rparr>
         (ExplorePage :: (nat, nat, nat) page)))\<lparr>searchQuery := ''milan''\<rparr>))) = []"
  by (simp add: fetchPosts_def fetchPosts_try_def handleSearch_def handleSearch_try_def
        preload_and_place_def ExplorePage_def trim_def isWhiteSpace_def Let_def)

subsection \<open>Errors\<close>

lemma fetchPosts_Done: "\<exists>s'. fetchPosts w s = Done s' \<and> \<not> loading s'"
proof (cases "fetchPosts_try w s")
  case (Done s')
  then have "\<not> loading s'"
    by (auto simp add: fetchPosts_try_def Let_def split: sum.splits outcome.splits if_splits)
  with Done show ?thesis by (simp add: fetchPosts_def)
next
  case (Threw x s')
  then show ?thesis by (simp add: fetchPosts_def)
qed

lemma handleSearch_Done: "\<exists>s'. handleSearch w s = Done s'"
proof (cases "trim (searchQuery s) = []")
  case True
  then show ?thesis using fetchPosts_Done [of w s] by (auto simp add: handleSearch_def)
next
  case False
  then show ?thesis by (cases "handleSearch_try w s") (simp_all add: handleSearch_def)
qed

lemma handleUpload_Done: "\<exists>s'. handleUpload w s = Done s' \<and> (handleUpload w s = Done s \<or> \<not> uploading s')"
  by (auto simp add: handleUpload_def split: option.splits outcome.splits)

text \<open>
  C5. \<^verbatim>\<open>fetchPosts\<close>, \<^verbatim>\<open>handleSearch\<close> and \<^verbatim>\<open>handleUpload\<close> always run to their end,
  whatever the network and the placement library do, and \<^verbatim>\<open>fetchPosts\<close> ends with the
  loading flag cleared; whatever is thrown inside the \<^verbatim>\<open>try\<close> block of one of them is
  turned into a normal end by its \<^verbatim>\<open>catch\<close>.
\<close>

theorem C5_errors_are_caught:
  "(\<exists>s'. fetchPosts w s = Done s' \<and> \<not> loading s')
   \<and> (\<exists>s'. handleSearch w s = Done s')
   \<and> (\<exists>s'. handleUpload w s = Done s')
   \<and> (fetchPosts_try w s = Threw x t \<longrightarrow> fetchPosts w s = Done (t\<lparr>loading := False\<rparr>))
   \<and> (trim (searchQuery s) \<noteq> [] \<and> handleSearch_try w s = Threw x t \<longrightarrow>
        handleSearch w s = Done t)
   \<and> (selectedImage s = Some img \<and> student s = Some st
        \<and> handleUpload_try w img st s = Threw x t \<longrightarrow>
        handleUpload w s
          = Done (t\<lparr>alerts := alerts t @ [''Failed to upload image''], uploading := False\<rparr>))"
  using fetchPosts_Done [of w s] handleSearch_Done [of w s] handleUpload_Done [of w s]
  by (auto simp add: fetchPosts_def handleSearch_def handleUpload_def)

theorem C5_errors_are_caught_witness:
  "fetchPosts
      \<lparr>fetch = (\<lambda>r. Inl NetworkFailure),
       preloadImageDimensions = (\<lambda>ps. Inl PreloadFailure),
       pickRandomCenter = (\<lambda>ps. Inl CenterFailure),
       calculateCircularPlacement = (\<lambda>ps c d. Inl PlacementFailure)\<rparr>
      ((ExplorePage :: (nat, nat, nat) page)
         \<lparr>student := Some \<lparr>full_name = ''asha''\<rparr>, searchQuery := ''milan'',
          selectedImage := Some ''photo''\<rparr>)
     = Done (((ExplorePage :: (nat, nat, nat) page)
         \<lparr>student := Some \<lparr>full_name = ''asha''\<rparr>, searchQuery := ''milan'',
          selectedImage := Some ''photo''\<rparr>)\<lparr>loading := False\<rparr>)
   \<and> handleSearch
      \<lparr>fetch = (\<lambda>r. Inl NetworkFailure),
       preloadImageDimensions = (\<lambda>ps. Inl PreloadFailure),
       pickRandomCenter = (\<lambda>ps. Inl CenterFailure),
       calculateCircularPlacement = (\<lambda>ps c d. Inl PlacementFailure)\<rparr>
      ((ExplorePage :: (nat, nat, nat) page)
         \<lparr>student := Some \<lparr>full_name = ''asha''\<rparr>, searchQuery := ''milan'',
          selectedImage := Some ''photo''\<rparr>)
     = Done ((ExplorePage :: (nat, nat, nat) page)
         \<lparr>student := Some \<lparr>full_name = ''asha''\<rparr>, searchQuery := ''milan'',
          selectedImage := Some ''photo''\<rparr>)
   \<and> handleUpload
      \<lparr>fetch = (\<lambda>r. Inl NetworkFailure),
       preloadImageDimensions = (\<lambda>ps. Inl PreloadFailure),
       pickRandomCenter = (\<lambda>ps. Inl CenterFailure),
       calculateCircularPlacement = (\<lambda>ps c d. Inl PlacementFailure)\<rparr>
      ((ExplorePage :: (nat, nat, nat) page)
         \<lparr>student := Some \<lparr>full_name = ''asha''\<rparr>, searchQuery := ''milan'',
          selectedImage := Some ''photo''\<rparr>)
     = Done (((ExplorePage :: (nat, nat, nat) page)
         \<lparr>student := Some \<lparr>full_name = ''asha''\<rparr>, searchQuery := ''milan'',
          selectedImage := Some ''photo''\<rparr>)\<lparr>alerts := [''Failed to upload image'']\<rparr>)"
proof -
  let ?w = "\<lparr>fetch = (\<lambda>r. Inl NetworkFailure),
       preloadImageDimensions = (\<lambda>ps. Inl PreloadFailure),
       pickRandomCenter = (\<lambda>ps. Inl CenterFailure),
       calculateCircularPlacement = (\<lambda>ps c d. Inl PlacementFailure)\<rparr> :: (nat, nat, nat) world"
  let ?s = "((ExplorePage :: (nat, nat, nat) page)
         \<lparr>student := Some \<lparr>full_name = ''asha''\<rparr>, searchQuery := ''milan'',
          selectedImage := Some ''photo''\<rparr>)"
  have q: "trim (searchQuery ?s) \<noteq> []"
    by (simp add: trim_def isWhiteSpace_def)
  have f: "fetchPosts_try ?w ?s = Threw NetworkFailure (?s\<lparr>loading := True\<rparr>)"
    by (simp add: fetchPosts_try_def)
  have h: "handleSearch_try ?w ?s = Threw NetworkFailure ?s"
    by (simp add: handleSearch_try_def)
  have u: "handleUpload_try ?w ''photo'' \<lparr>full_name = ''asha''\<rparr> ?s
      = Threw NetworkFailure (?s\<lparr>uploading := True\<rparr>)"
    by (simp add: handleUpload_try_def)
  have i: "selectedImage ?s = Some ''photo''" and st: "student ?s = Some \<lparr>full_name = ''asha''\<rparr>"
    by simp_all
  from C5_errors_are_caught [of ?w ?s NetworkFailure "?s\<lparr>loading := True\<rparr>"] f
  have a: "fetchPosts ?w ?s = Done (?s\<lparr>loading := True\<rparr>\<lparr>loading := False\<rparr>)"
    by blast
  from C5_errors_are_caught [of ?w ?s NetworkFailure ?s] q h
  have b: "handleSearch ?w ?s = Done ?s"
    by blast
  from C5_errors_are_caught
    [of ?w ?s NetworkFailure "?s\<lparr>uploading := True\<rparr>" "''photo''" "\<lparr>full_name = ''asha''\<rparr>"]
    i st u
  have c: "handleUpload ?w ?s
      = Done (?s\<lparr>uploading := True\<rparr>
               \<lparr>alerts := alerts (?s\<lparr>uploading := True\<rparr>) @ [''Failed to upload image''],
                uploading := False\<rparr>)"
    by blast
  from a b c show ?thesis
    by (simp add: ExplorePage_def)
qed

subsection \<open>The total count\<close>

lemma preload_and_place_totalPosts:
  "totalPosts (final (preload_and_place w ps s)) = totalPosts s"
  by (simp add: preload_and_place_def Let_def split: sum.splits option.splits)

lemma handleSearch_try_totalPosts:
  "totalPosts (final (handleSearch_try w s)) = totalPosts s"
  by (simp add: handleSearch_try_def Let_def preload_and_place_totalPosts split: sum.splits)

lemma final_catch: "final (case r of Done s' \<Rightarrow> Done s' | Threw x s' \<Rightarrow> Done s') = final r"
  by (cases r) simp_all

lemma handleSearch_try_posts:
  assumes "fetch w (GetPostsByHashtag (searchQuery s)) = Inr r" and "json r = Inr d"
    and "success d"
  shows "posts (final (handleSearch_try w s)) = data_posts d"
  using assms
  by (simp add: handleSearch_try_def Let_def preload_and_place_def
        split: sum.splits option.splits)

lemma handleSearch_try_placed:
  assumes "fetch w (GetPostsByHashtag (searchQuery s)) = Inr r" and "json r = Inr d"
    and "success d"
  shows "data_posts d = [] \<longrightarrow> placedImages (final (handleSearch_try w s)) = []"
    and "data_posts d \<noteq> [] \<and> preloadImageDimensions w (data_posts d) = Inr dims
         \<and> pickRandomCenter w (data_posts d) = Inr (Some c)
         \<and> calculateCircularPlacement w (data_posts d) c dims = Inr pl
         \<longrightarrow> placedImages (final (handleSearch_try w s)) = pl"
  using assms
  by (simp_all add: handleSearch_try_def Let_def preload_and_place_def)

text \<open>
  C10. After \<^verbatim>\<open>handleSearch\<close> the total-posts count is the one a full fetch has set: with
  a blank query \<^verbatim>\<open>handleSearch\<close> is that full fetch, and with any other query, a hashtag
  search, the count is unchanged, whatever the search returns; a successful hashtag
  search sets the post list to the posts of the response, and the placed images to the
  empty list for zero posts and to the result of the placement otherwise.
\<close>

theorem C10_search_keeps_totalPosts:
  "totalPosts (final (handleSearch w s))
     = (if trim (searchQuery s) = [] then totalPosts (final (fetchPosts w s))
        else totalPosts s)
   \<and> (trim (searchQuery s) \<noteq> [] \<and> fetch w (GetPostsByHashtag (searchQuery s)) = Inr r
        \<and> json r = Inr d \<and> success d \<longrightarrow>
        posts (final (handleSearch w s)) = data_posts d
        \<and> totalPosts (final (handleSearch w s)) = totalPosts s
        \<and> (data_posts d = [] \<longrightarrow> placedImages (final (handleSearch w s)) = [])
        \<and> (data_posts d \<noteq> [] \<and> preloadImageDimensions w (data_posts d) = Inr dims
             \<and> pickRandomCenter w (data_posts d) = Inr (Some c)
             \<and> calculateCircularPlacement w (data_posts d) c dims = Inr pl
             \<longrightarrow> placedImages (final (handleSearch w s)) = pl))"
proof (cases "trim (searchQuery s) = []")
  case True
  then show ?thesis by (simp add: handleSearch_def)
next
  case False
  then have f: "final (handleSearch w s) = final (handleSearch_try w s)"
    by (simp add: handleSearch_def final_catch)
  show ?thesis
    using False handleSearch_try_totalPosts [of w s] handleSearch_try_posts [of w s r d]
      handleSearch_try_placed(1) [of w s r d] handleSearch_try_placed(2) [of w s r d dims c pl]
    by (simp add: f)
qed

theorem C10_search_keeps_totalPosts_witness:
  "totalPosts (final (handleSearch
      \<lparr>fetch = (\<lambda>q. Inr \<lparr>json = Inr \<lparr>success = True, data_posts = [1, 2, 3], total_count = 3,
                                      trending = [], error_message = []\<rparr>\<rparr>),
       preloadImageDimensions = (\<lambda>ps. Inr Map.empty),
       pickRandomCenter = (\<lambda>ps. Inr (Some 2)),
       calculateCircularPlacement = (\<lambda>ps c d. Inr [20, 10, 30])\<rparr>
      ((ExplorePage :: (nat, nat, nat) page)\<lparr>totalPosts := 9, searchQuery := ''milan''\<rparr>))) = 9
   \<and> posts (final (handleSearch
      \<lparr>fetch = (\<lambda>q. Inr \<lparr>json = Inr \<lparr>success = True, data_posts = [1, 2, 3], total_count = 3,
                                      trending = [], error_message = []\<rparr>\<rparr>),
       preloadImageDimensions = (\<lambda>ps. Inr Map.empty),
       pickRandomCenter = (\<lambda>ps. Inr (Some 2)),
       calculateCircularPlacement = (\<lambda>ps c d. Inr [20, 10, 30])\<rparr>
      ((ExplorePage :: (nat, nat, nat) page)\<lparr>totalPosts := 9, searchQuery := ''milan''\<rparr>)))
     = [1, 2, 3]
   \<and> placedImages (final (handleSearch
      \<lparr>fetch = (\<lambda>q. Inr \<lparr>json = Inr \<lparr>success = True, data_posts = [1, 2, 3], total_count = 3,
                                      trending = [], error_message = []\<rparr>\<rparr>),
       preloadImageDimensions = (\<lambda>ps. Inr Map.empty),
       pickRandomCenter = (\<lambda>ps. Inr (Some 2)),
       calculateCircularPlacement = (\<lambda>ps c d. Inr [20, 10, 30])\<rparr>
      ((ExplorePage :: (nat, nat, nat) page)\<lparr>totalPosts := 9, searchQuery := ''milan''\<rparr>)))
     = [20, 10, 30]"
proof -
  let ?d = "\<lparr>success = True, data_posts = [1, 2, 3 :: nat], total_count = 3,
             trending = [], error_message = []\<rparr>"
  let ?r = "\<lparr>json = Inr ?d\<rparr>"
  let ?w = "\<lparr>fetch = (\<lambda>q. Inr ?r),
       preloadImageDimensions = (\<lambda>ps. Inr Map.empty),
       pickRandomCenter = (\<lambda>ps. Inr (Some 2)),
       calculateCircularPlacement = (\<lambda>ps c d. Inr [20, 10, 30])\<rparr> :: (nat, nat, nat) world"
  let ?s = "(ExplorePage :: (nat, nat, nat) page)\<lparr>totalPosts := 9, searchQuery := ''milan''\<rparr>"
  have q: "trim (searchQuery ?s) \<noteq> []"
    by (simp add: trim_def isWhiteSpace_def)
  have t: "totalPosts ?s = 9" by simp
  from C10_search_keeps_totalPosts [of ?w ?s ?r ?d Map.empty 2 "[20, 10, 30]"] q t
  show ?thesis by simp
qed


end
